theory Spec2Isabelle
  imports Main "HOL-Library.Word"
begin

unbundle bit_operations_syntax

section \<open>Machine types and the kernel's error pointers\<close>

type_synonym u8 = "8 word"
type_synonym u32 = "32 word"

text \<open>A kernel pointer, kept as the 64-bit value of its address.\<close>
type_synonym ptr = "64 word"

text \<open>
  Modelled from the spec: \<open>linux/err.h\<close> and \<open>linux/bits.h\<close> are not part of the
  sources at hand. The spec only says that errors travel as negative status codes; the
  encoding below is the kernel's: the last \<open>MAX_ERRNO\<close> addresses stand for the
  negated errno values, \<open>IS_ERR\<close> tests for them, \<open>PTR_ERR\<close> reads the address as a
  signed long. \<open>int_of_long\<close> is the conversion C applies when such a long is returned
  from a function whose result type is \<open>int\<close>.
\<close>

definition MAX_ERRNO :: ptr where
  "MAX_ERRNO = 4095"

definition NULL :: ptr where
  "NULL = 0"

definition IS_ERR :: "ptr \<Rightarrow> bool" where
  "IS_ERR p = (p \<ge> - MAX_ERRNO)"

definition PTR_ERR :: "ptr \<Rightarrow> ptr" where
  "PTR_ERR p = p"

definition ERR_PTR :: "int \<Rightarrow> ptr" where
  "ERR_PTR e = word_of_int e"

definition int_of_long :: "ptr \<Rightarrow> int" where
  "int_of_long l = sint (ucast l :: 32 word)"

definition BIT :: "nat \<Rightarrow> 64 word" where
  "BIT n = push_bit n 1"

definition ENOENT :: int where
  "ENOENT = 2"

definition ENOMEM :: int where
  "ENOMEM = 12"

section \<open>The host kernel as seen by the drivers\<close>

text \<open>
  Every call a driver makes into the kernel is recorded, oldest first. The record is the
  only state the drivers change here: what reaches the bus, the GPIO line and the display
  framework, and in which order.
\<close>

datatype call =
    GpiodSetValue ptr int
  | UsleepRange nat nat
  | Msleep nat
  | MipiDbiCommand u8 "u8 list"
  | DevmKzalloc
  | DrmPanelInit
  | SpiSetDrvdata
  | DevmGpiodGet string
  | DevmGpiodGetOptional string
  | DevErrProbe int
  | DrmPanelOfBacklight
  | MipiDbiSpiInit ptr
  | DrmPanelAdd
  | DevmDrmDevAlloc
  | DrmDevError
  | DevmOfFindBacklight
  | DevicePropertyReadU32 string
  | MipiDbiDevInit u32
  | DrmModeConfigReset
  | DrmDevRegister
  | DrmFbdevGenericSetup
  | DevInfo
  | DrmDevEnter
  | DrmDevExit
  | MipiDbiPoweronReset
  | MipiDbiEnableFlush

type_synonym world = "call list"

text \<open>
  What the kernel answers. None of these functions is in the sources at hand, so their
  results are parameters: a status for each bus command (it may depend on everything
  done so far), the result of each allocation and lookup, the status of each
  initialisation.
\<close>

record host =
  dbi_status :: "world \<Rightarrow> u8 \<Rightarrow> u8 list \<Rightarrow> int"
  kzalloc_result :: ptr
  gpio_line :: "string \<Rightarrow> ptr option"
  panel_of_backlight :: int
  spi_init :: "ptr \<Rightarrow> int"
  drm_dev_alloc_result :: ptr
  of_find_backlight :: ptr
  device_property :: "string \<Rightarrow> u32 option"
  dev_init :: "u32 \<Rightarrow> int"
  dev_register :: int
  dev_enter :: bool
  poweron_reset :: int

subsection \<open>Statements\<close>

text \<open>
  A C expression statement whose value is dropped, and a run of statements executed one
  after the other.
\<close>

definition discard :: "(world \<Rightarrow> int \<times> world) \<Rightarrow> world \<Rightarrow> world" where
  "discard f w = snd (f w)"

definition stmts :: "(world \<Rightarrow> world) list \<Rightarrow> world \<Rightarrow> world" where
  "stmts fs w = fold (\<lambda>f. f) fs w"

subsection \<open>Delays, GPIO and the command bus\<close>

definition gpiod_set_value :: "ptr \<Rightarrow> int \<Rightarrow> world \<Rightarrow> world" where
  "gpiod_set_value desc v w = w @ [GpiodSetValue desc v]"

definition usleep_range :: "nat \<Rightarrow> nat \<Rightarrow> world \<Rightarrow> world" where
  "usleep_range lo hi w = w @ [UsleepRange lo hi]"

definition msleep :: "nat \<Rightarrow> world \<Rightarrow> world" where
  "msleep ms w = w @ [Msleep ms]"

text \<open>
  \<open>mipi_dbi_command(dbi, cmd, seq...)\<close>: the command byte and its parameter bytes go to
  the bus, and the bus status comes back.
\<close>

definition mipi_dbi_command :: "host \<Rightarrow> u8 \<Rightarrow> u8 list \<Rightarrow> world \<Rightarrow> int \<times> world" where
  "mipi_dbi_command h cmd d w = (dbi_status h w cmd d, w @ [MipiDbiCommand cmd d])"

text \<open>
  Modelled from the spec: \<open>video/mipi_display.h\<close> is not part of the sources at hand;
  these are the MIPI DCS command codes the drivers name.
\<close>

definition MIPI_DCS_ENTER_SLEEP_MODE :: u8 where
  "MIPI_DCS_ENTER_SLEEP_MODE = 0x10"

definition MIPI_DCS_EXIT_SLEEP_MODE :: u8 where
  "MIPI_DCS_EXIT_SLEEP_MODE = 0x11"

definition MIPI_DCS_ENTER_NORMAL_MODE :: u8 where
  "MIPI_DCS_ENTER_NORMAL_MODE = 0x13"

definition MIPI_DCS_SET_DISPLAY_OFF :: u8 where
  "MIPI_DCS_SET_DISPLAY_OFF = 0x28"

definition MIPI_DCS_SET_DISPLAY_ON :: u8 where
  "MIPI_DCS_SET_DISPLAY_ON = 0x29"

definition MIPI_DCS_SET_TEAR_ON :: u8 where
  "MIPI_DCS_SET_TEAR_ON = 0x35"

definition MIPI_DCS_SET_ADDRESS_MODE :: u8 where
  "MIPI_DCS_SET_ADDRESS_MODE = 0x36"

definition MIPI_DCS_SET_PIXEL_FORMAT :: u8 where
  "MIPI_DCS_SET_PIXEL_FORMAT = 0x3A"

section \<open>The ILI9806E panel driver\<close>

subsection \<open>Registers\<close>

definition ILI9806E_P1_IFMODE1 :: u8 where
  "ILI9806E_P1_IFMODE1 = 0x08"

definition IFMODE1_SEPT_SDIO :: "64 word" where
  "IFMODE1_SEPT_SDIO = BIT 3"

definition IFMODE1_SDO_STATUS :: "64 word" where
  "IFMODE1_SDO_STATUS = BIT 4"

definition ILI9806E_P1_DISCTRL1 :: u8 where
  "ILI9806E_P1_DISCTRL1 = 0x20"

definition DISCTRL1_SYNC_MODE :: "64 word" where
  "DISCTRL1_SYNC_MODE = BIT 0"

definition ILI9806E_P1_DISCTRL2 :: u8 where
  "ILI9806E_P1_DISCTRL2 = 0x21"

definition DISCTRL2_EPL :: "64 word" where
  "DISCTRL2_EPL = BIT 0"

definition ILI9806E_P1_RESCTRL :: u8 where
  "ILI9806E_P1_RESCTRL = 0x30"

definition RESCTRL_480x800 :: u8 where
  "RESCTRL_480x800 = 0x2"

definition ILI9806E_P1_INVTR :: u8 where
  "ILI9806E_P1_INVTR = 0x31"

definition INVTR_NLA_COLUMN :: u8 where
  "INVTR_NLA_COLUMN = 0x0"

definition ILI9806E_P1_PWCTRL1 :: u8 where
  "ILI9806E_P1_PWCTRL1 = 0x40"

definition ILI9806E_P1_PWCTRL2 :: u8 where
  "ILI9806E_P1_PWCTRL2 = 0x41"

definition ILI9806E_P1_PWCTRL3 :: u8 where
  "ILI9806E_P1_PWCTRL3 = 0x42"

definition ILI9806E_P1_PWCTRL4 :: u8 where
  "ILI9806E_P1_PWCTRL4 = 0x43"

definition ILI9806E_P1_PWCTRL5 :: u8 where
  "ILI9806E_P1_PWCTRL5 = 0x44"

definition ILI9806E_P1_PWCTRL9 :: u8 where
  "ILI9806E_P1_PWCTRL9 = 0x50"

definition ILI9806E_P1_PWCTRL10 :: u8 where
  "ILI9806E_P1_PWCTRL10 = 0x51"

definition ILI9806E_P1_VMCTRL1 :: u8 where
  "ILI9806E_P1_VMCTRL1 = 0x52"

definition ILI9806E_P1_VMCTRL2 :: u8 where
  "ILI9806E_P1_VMCTRL2 = 0x53"

definition ILI9806E_P1_SRCTADJ1 :: u8 where
  "ILI9806E_P1_SRCTADJ1 = 0x60"

definition ILI9806E_P1_SRCTADJ2 :: u8 where
  "ILI9806E_P1_SRCTADJ2 = 0x61"

definition ILI9806E_P1_SRCTADJ3 :: u8 where
  "ILI9806E_P1_SRCTADJ3 = 0x62"

definition ILI9806E_P1_SRCTADJ4 :: u8 where
  "ILI9806E_P1_SRCTADJ4 = 0x63"

definition ILI9806E_P1_P_GAMMA :: "nat \<Rightarrow> u8" where
  "ILI9806E_P1_P_GAMMA n = 0xa0 + of_nat n - 1"

definition ILI9806E_P1_N_GAMMA :: "nat \<Rightarrow> u8" where
  "ILI9806E_P1_N_GAMMA n = 0xc0 + of_nat n - 1"

definition ILI9806E_P7_VGLREGEN :: u8 where
  "ILI9806E_P7_VGLREGEN = 0x17"

definition ILI9806E_P7_0x02 :: u8 where
  "ILI9806E_P7_0x02 = 0x02"

definition ILI9806E_P7_0xe1 :: u8 where
  "ILI9806E_P7_0xe1 = 0xe1"

definition ILI9806E_Px_ENEXTC :: u8 where
  "ILI9806E_Px_ENEXTC = 0xff"

subsection \<open>The control block\<close>

text \<open>
  \<open>struct ili9806e\<close> holds a \<open>struct mipi_dbi\<close> and a \<open>struct drm_panel\<close>. Of the
  first the driver reads the reset line; the second is what it registers.
\<close>

record ili9806e =
  dbi_reset :: ptr

subsection \<open>Power sequencing\<close>

definition ili9806e_switch_page :: "host \<Rightarrow> ili9806e \<Rightarrow> u32 \<Rightarrow> world \<Rightarrow> int \<times> world" where
  "ili9806e_switch_page h ctx page =
     mipi_dbi_command h ILI9806E_Px_ENEXTC [0xff, 0x98, 0x06, 0x04, ucast page]"

definition ili9806e_unprepare :: "host \<Rightarrow> ili9806e \<Rightarrow> world \<Rightarrow> int \<times> world" where
  "ili9806e_unprepare h ctx w =
     (0, stmts [
        discard (mipi_dbi_command h MIPI_DCS_SET_DISPLAY_OFF [0x00]),
        discard (mipi_dbi_command h MIPI_DCS_ENTER_SLEEP_MODE [0x00])] w)"

definition ili9806e_prepare :: "host \<Rightarrow> ili9806e \<Rightarrow> world \<Rightarrow> int \<times> world" where
  "ili9806e_prepare h ctx w =
     (0, stmts [
        gpiod_set_value (dbi_reset ctx) 1,
        usleep_range 15 50,
        gpiod_set_value (dbi_reset ctx) 0,
        msleep 125,

        discard (ili9806e_switch_page h ctx 1),

        discard (mipi_dbi_command h ILI9806E_P1_IFMODE1 [ucast IFMODE1_SDO_STATUS]),
        discard (mipi_dbi_command h ILI9806E_P1_DISCTRL2 [ucast DISCTRL2_EPL]),
        discard (mipi_dbi_command h ILI9806E_P1_RESCTRL [RESCTRL_480x800]),
        discard (mipi_dbi_command h ILI9806E_P1_INVTR [INVTR_NLA_COLUMN]),

        discard (mipi_dbi_command h ILI9806E_P1_PWCTRL1 [0x10]),
        discard (mipi_dbi_command h ILI9806E_P1_PWCTRL2 [0x55]),
        discard (mipi_dbi_command h ILI9806E_P1_PWCTRL3 [0x02]),
        discard (mipi_dbi_command h ILI9806E_P1_PWCTRL4 [0x09]),
        discard (mipi_dbi_command h ILI9806E_P1_PWCTRL5 [0x07]),
        discard (mipi_dbi_command h ILI9806E_P1_PWCTRL9 [0x78]),
        discard (mipi_dbi_command h ILI9806E_P1_PWCTRL10 [0x78]),

        discard (mipi_dbi_command h ILI9806E_P1_VMCTRL1 [0x00]),
        discard (mipi_dbi_command h ILI9806E_P1_VMCTRL2 [0x6d]),

        discard (mipi_dbi_command h ILI9806E_P1_SRCTADJ1 [0x07]),
        discard (mipi_dbi_command h ILI9806E_P1_SRCTADJ2 [0x00]),
        discard (mipi_dbi_command h ILI9806E_P1_SRCTADJ3 [0x08]),
        discard (mipi_dbi_command h ILI9806E_P1_SRCTADJ4 [0x00]),

        discard (mipi_dbi_command h (ILI9806E_P1_P_GAMMA 1) [0x00]),
        discard (mipi_dbi_command h (ILI9806E_P1_P_GAMMA 2) [0x07]),
        discard (mipi_dbi_command h (ILI9806E_P1_P_GAMMA 3) [0x0c]),
        discard (mipi_dbi_command h (ILI9806E_P1_P_GAMMA 4) [0x0b]),
        discard (mipi_dbi_command h (ILI9806E_P1_P_GAMMA 5) [0x03]),
        discard (mipi_dbi_command h (ILI9806E_P1_P_GAMMA 6) [0x07]),
        discard (mipi_dbi_command h (ILI9806E_P1_P_GAMMA 7) [0x06]),
        discard (mipi_dbi_command h (ILI9806E_P1_P_GAMMA 8) [0x04]),
        discard (mipi_dbi_command h (ILI9806E_P1_P_GAMMA 9) [0x08]),
        discard (mipi_dbi_command h (ILI9806E_P1_P_GAMMA 10) [0x0c]),
        discard (mipi_dbi_command h (ILI9806E_P1_P_GAMMA 11) [0x13]),
        discard (mipi_dbi_command h (ILI9806E_P1_P_GAMMA 12) [0x06]),
        discard (mipi_dbi_command h (ILI9806E_P1_P_GAMMA 13) [0x0d]),
        discard (mipi_dbi_command h (ILI9806E_P1_P_GAMMA 14) [0x19]),
        discard (mipi_dbi_command h (ILI9806E_P1_P_GAMMA 15) [0x10]),
        discard (mipi_dbi_command h (ILI9806E_P1_P_GAMMA 16) [0x00]),

        discard (mipi_dbi_command h (ILI9806E_P1_N_GAMMA 1) [0x00]),
        discard (mipi_dbi_command h (ILI9806E_P1_N_GAMMA 2) [0x07]),
        discard (mipi_dbi_command h (ILI9806E_P1_N_GAMMA 3) [0x0c]),
        discard (mipi_dbi_command h (ILI9806E_P1_N_GAMMA 4) [0x0b]),
        discard (mipi_dbi_command h (ILI9806E_P1_N_GAMMA 5) [0x03]),
        discard (mipi_dbi_command h (ILI9806E_P1_N_GAMMA 6) [0x07]),
        discard (mipi_dbi_command h (ILI9806E_P1_N_GAMMA 7) [0x07]),
        discard (mipi_dbi_command h (ILI9806E_P1_N_GAMMA 8) [0x04]),
        discard (mipi_dbi_command h (ILI9806E_P1_N_GAMMA 9) [0x08]),
        discard (mipi_dbi_command h (ILI9806E_P1_N_GAMMA 10) [0x0c]),
        discard (mipi_dbi_command h (ILI9806E_P1_N_GAMMA 11) [0x13]),
        discard (mipi_dbi_command h (ILI9806E_P1_N_GAMMA 12) [0x06]),
        discard (mipi_dbi_command h (ILI9806E_P1_N_GAMMA 13) [0x0d]),
        discard (mipi_dbi_command h (ILI9806E_P1_N_GAMMA 14) [0x18]),
        discard (mipi_dbi_command h (ILI9806E_P1_N_GAMMA 15) [0x10]),
        discard (mipi_dbi_command h (ILI9806E_P1_N_GAMMA 16) [0x00]),

        discard (ili9806e_switch_page h ctx 6),

        discard (mipi_dbi_command h 0x00 [0x20]),
        discard (mipi_dbi_command h 0x01 [0x0a]),
        discard (mipi_dbi_command h 0x02 [0x00]),
        discard (mipi_dbi_command h 0x03 [0x00]),
        discard (mipi_dbi_command h 0x04 [0x01]),
        discard (mipi_dbi_command h 0x05 [0x01]),
        discard (mipi_dbi_command h 0x06 [0x98]),
        discard (mipi_dbi_command h 0x07 [0x06]),
        discard (mipi_dbi_command h 0x08 [0x01]),
        discard (mipi_dbi_command h 0x09 [0x80]),
        discard (mipi_dbi_command h 0x0a [0x00]),
        discard (mipi_dbi_command h 0x0b [0x00]),
        discard (mipi_dbi_command h 0x0c [0x01]),
        discard (mipi_dbi_command h 0x0d [0x01]),
        discard (mipi_dbi_command h 0x0e [0x00]),
        discard (mipi_dbi_command h 0x0f [0x00]),
        discard (mipi_dbi_command h 0x10 [0xf0]),
        discard (mipi_dbi_command h 0x11 [0xf4]),
        discard (mipi_dbi_command h 0x12 [0x01]),
        discard (mipi_dbi_command h 0x13 [0x00]),
        discard (mipi_dbi_command h 0x14 [0x00]),
        discard (mipi_dbi_command h 0x15 [0xc0]),
        discard (mipi_dbi_command h 0x16 [0x08]),
        discard (mipi_dbi_command h 0x17 [0x00]),
        discard (mipi_dbi_command h 0x18 [0x00]),
        discard (mipi_dbi_command h 0x19 [0x00]),
        discard (mipi_dbi_command h 0x1a [0x00]),
        discard (mipi_dbi_command h 0x1b [0x00]),
        discard (mipi_dbi_command h 0x1c [0x00]),
        discard (mipi_dbi_command h 0x1d [0x00]),
        discard (mipi_dbi_command h 0x20 [0x01]),
        discard (mipi_dbi_command h 0x21 [0x23]),
        discard (mipi_dbi_command h 0x22 [0x45]),
        discard (mipi_dbi_command h 0x23 [0x67]),
        discard (mipi_dbi_command h 0x24 [0x01]),
        discard (mipi_dbi_command h 0x25 [0x23]),
        discard (mipi_dbi_command h 0x26 [0x45]),
        discard (mipi_dbi_command h 0x27 [0x67]),
        discard (mipi_dbi_command h 0x30 [0x11]),
        discard (mipi_dbi_command h 0x31 [0x11]),
        discard (mipi_dbi_command h 0x32 [0x00]),
        discard (mipi_dbi_command h 0x33 [0xee]),
        discard (mipi_dbi_command h 0x34 [0xff]),
        discard (mipi_dbi_command h 0x35 [0xbb]),
        discard (mipi_dbi_command h 0x36 [0xaa]),
        discard (mipi_dbi_command h 0x37 [0xdd]),
        discard (mipi_dbi_command h 0x38 [0xcc]),
        discard (mipi_dbi_command h 0x39 [0x66]),
        discard (mipi_dbi_command h 0x3a [0x77]),
        discard (mipi_dbi_command h 0x3b [0x22]),
        discard (mipi_dbi_command h 0x3c [0x22]),
        discard (mipi_dbi_command h 0x3d [0x22]),
        discard (mipi_dbi_command h 0x3e [0x22]),
        discard (mipi_dbi_command h 0x3f [0x22]),
        discard (mipi_dbi_command h 0x40 [0x22]),
        discard (mipi_dbi_command h 0x52 [0x10]),
        discard (mipi_dbi_command h 0x53 [0x10]),

        discard (ili9806e_switch_page h ctx 7),

        discard (mipi_dbi_command h ILI9806E_P7_VGLREGEN [0x22]),
        discard (mipi_dbi_command h ILI9806E_P7_0x02 [0x77]),
        discard (mipi_dbi_command h ILI9806E_P7_0xe1 [0x79]),

        discard (ili9806e_switch_page h ctx 0),

        discard (mipi_dbi_command h MIPI_DCS_SET_TEAR_ON []),
        discard (mipi_dbi_command h MIPI_DCS_EXIT_SLEEP_MODE []),

        msleep 120,

        discard (mipi_dbi_command h MIPI_DCS_SET_DISPLAY_ON [])] w)"

text \<open>The two system-sleep callbacks (built under \<open>CONFIG_PM_SLEEP\<close>).\<close>

definition ili9806e_suspend :: "host \<Rightarrow> ili9806e \<Rightarrow> world \<Rightarrow> int \<times> world" where
  "ili9806e_suspend h ctx w =
     (0, stmts [
        discard (mipi_dbi_command h MIPI_DCS_SET_DISPLAY_OFF [0x00]),
        discard (mipi_dbi_command h MIPI_DCS_ENTER_SLEEP_MODE [0x00])] w)"


subsection \<open>The display mode\<close>

text \<open>
  The fields of \<open>struct drm_display_mode\<close> that the driver initialises, with the widths
  the kernel gives them, and the name that \<open>drm_mode_set_name\<close> fills in.
\<close>

record drm_display_mode =
  width_mm :: "16 word"
  height_mm :: "16 word"
  clock :: int
  hdisplay :: "16 word"
  hsync_start :: "16 word"
  hsync_end :: "16 word"
  htotal :: "16 word"
  vdisplay :: "16 word"
  vsync_start :: "16 word"
  vsync_end :: "16 word"
  vtotal :: "16 word"
  flags :: u32
  mode_type :: u8
  mode_name :: string

text \<open>
  Modelled from the spec: the DRM mode flag and type bits and the media bus format code
  come from \<open>drm/drm_mode.h\<close>, \<open>drm/drm_modes.h\<close> and
  \<open>linux/media-bus-format.h\<close>, none of which is part of the sources at hand.
\<close>

definition DRM_MODE_FLAG_NHSYNC :: u32 where
  "DRM_MODE_FLAG_NHSYNC = push_bit 1 1"

definition DRM_MODE_FLAG_NVSYNC :: u32 where
  "DRM_MODE_FLAG_NVSYNC = push_bit 3 1"

definition DRM_MODE_TYPE_PREFERRED :: u8 where
  "DRM_MODE_TYPE_PREFERRED = push_bit 3 1"

definition DRM_MODE_TYPE_DRIVER :: u8 where
  "DRM_MODE_TYPE_DRIVER = push_bit 6 1"

definition MEDIA_BUS_FMT_RGB666_1X18 :: u32 where
  "MEDIA_BUS_FMT_RGB666_1X18 = 0x1009"

definition ILI9806E_BUS_FORMAT :: u32 where
  "ILI9806E_BUS_FORMAT = MEDIA_BUS_FMT_RGB666_1X18"

definition nds040480800_v3_mode :: drm_display_mode where
  "nds040480800_v3_mode = \<lparr>
     width_mm = 51,
     height_mm = 85,
     clock = 30000,
     hdisplay = 480,
     hsync_start = 480 + 25,
     hsync_end = 480 + 25 + 54,
     htotal = 480 + 25 + 54 + 25,
     vdisplay = 800,
     vsync_start = 800 + 25,
     vsync_end = 800 + 25 + 14,
     vtotal = 800 + 25 + 14 + 22,
     flags = DRM_MODE_FLAG_NHSYNC OR DRM_MODE_FLAG_NVSYNC,
     mode_type = DRM_MODE_TYPE_PREFERRED OR DRM_MODE_TYPE_DRIVER,
     mode_name = []\<rparr>"

subsection \<open>The connector\<close>

record drm_display_info =
  info_width_mm :: u32
  info_height_mm :: u32
  bus_formats :: "u32 list"

record drm_connector =
  display_info :: drm_display_info
  probed_modes :: "drm_display_mode list"

text \<open>
  What the DRM core answers to \<open>ili9806e_get_modes\<close>: whether each of the two
  allocations succeeds, and the name it prints for a mode.
\<close>

record drm_core =
  mode_duplicate_ok :: bool
  bus_formats_ok :: bool
  print_mode_name :: "drm_display_mode \<Rightarrow> string"

text \<open>
  Modelled from the spec: the DRM helpers below are not part of the sources at hand.
  \<open>drm_mode_duplicate\<close> gives a copy of the mode or no mode when the allocation
  fails; \<open>drm_mode_set_name\<close> fills in the name; \<open>drm_display_info_set_bus_formats\<close>
  replaces the format list unless its allocation fails; \<open>drm_mode_probed_add\<close> puts
  the mode at the tail of the connector's list of probed modes.
\<close>

definition drm_mode_duplicate :: "drm_core \<Rightarrow> drm_display_mode \<Rightarrow> drm_display_mode option" where
  "drm_mode_duplicate k m = (if mode_duplicate_ok k then Some m else None)"

definition drm_mode_set_name :: "drm_core \<Rightarrow> drm_display_mode \<Rightarrow> drm_display_mode" where
  "drm_mode_set_name k m = m\<lparr>mode_name := print_mode_name k m\<rparr>"

definition drm_display_info_set_bus_formats ::
    "drm_core \<Rightarrow> drm_display_info \<Rightarrow> u32 list \<Rightarrow> int \<times> drm_display_info" where
  "drm_display_info_set_bus_formats k info formats =
     (if formats \<noteq> [] \<and> \<not> bus_formats_ok k then (- ENOMEM, info)
      else (0, info\<lparr>bus_formats := formats\<rparr>))"

definition drm_mode_probed_add :: "drm_connector \<Rightarrow> drm_display_mode \<Rightarrow> drm_connector" where
  "drm_mode_probed_add connector m = connector\<lparr>probed_modes := probed_modes connector @ [m]\<rparr>"

definition ili9806e_get_modes :: "drm_core \<Rightarrow> drm_connector \<Rightarrow> int \<times> drm_connector" where
  "ili9806e_get_modes k connector =
     (let bus_format = ILI9806E_BUS_FORMAT in
      case drm_mode_duplicate k nds040480800_v3_mode of
        None \<Rightarrow> (- ENOMEM, connector)
      | Some m0 \<Rightarrow>
          let m = drm_mode_set_name k m0;
              c1 = connector\<lparr>display_info :=
                     (display_info connector)\<lparr>info_width_mm := ucast (width_mm m)\<rparr>\<rparr>;
              c2 = c1\<lparr>display_info :=
                     (display_info c1)\<lparr>info_height_mm := ucast (height_mm m)\<rparr>\<rparr>;
              c3 = c2\<lparr>display_info :=
                     snd (drm_display_info_set_bus_formats k (display_info c2) [bus_format])\<rparr>;
              c4 = drm_mode_probed_add c3 m
          in (1, c4))"

subsection \<open>Probing\<close>

text \<open>
  Modelled from the spec: the allocation, GPIO, backlight, SPI and panel functions that
  \<open>ili9806e_probe\<close> and \<open>st7789v_probe\<close> call are not part of the sources at hand.
  Each one records its call and hands back what the host answers. The two GPIO getters
  differ where the device has no line of the name asked for: \<open>devm_gpiod_get\<close>
  answers the error pointer of \<open>-ENOENT\<close>, \<open>devm_gpiod_get_optional\<close> answers
  \<open>NULL\<close>. \<open>dev_err_probe\<close> logs and returns the error it was given.
\<close>

definition devm_kzalloc :: "host \<Rightarrow> world \<Rightarrow> ptr \<times> world" where
  "devm_kzalloc h w = (kzalloc_result h, w @ [DevmKzalloc])"

definition drm_panel_init :: "world \<Rightarrow> world" where
  "drm_panel_init w = w @ [DrmPanelInit]"

definition spi_set_drvdata :: "world \<Rightarrow> world" where
  "spi_set_drvdata w = w @ [SpiSetDrvdata]"

definition devm_gpiod_get :: "host \<Rightarrow> string \<Rightarrow> world \<Rightarrow> ptr \<times> world" where
  "devm_gpiod_get h con_id w =
     ((case gpio_line h con_id of None \<Rightarrow> ERR_PTR (- ENOENT) | Some p \<Rightarrow> p),
      w @ [DevmGpiodGet con_id])"

definition devm_gpiod_get_optional :: "host \<Rightarrow> string \<Rightarrow> world \<Rightarrow> ptr \<times> world" where
  "devm_gpiod_get_optional h con_id w =
     ((case gpio_line h con_id of None \<Rightarrow> NULL | Some p \<Rightarrow> p),
      w @ [DevmGpiodGetOptional con_id])"

definition dev_err_probe :: "int \<Rightarrow> world \<Rightarrow> int \<times> world" where
  "dev_err_probe err w = (err, w @ [DevErrProbe err])"

definition drm_panel_of_backlight :: "host \<Rightarrow> world \<Rightarrow> int \<times> world" where
  "drm_panel_of_backlight h w = (panel_of_backlight h, w @ [DrmPanelOfBacklight])"

definition mipi_dbi_spi_init :: "host \<Rightarrow> ptr \<Rightarrow> world \<Rightarrow> int \<times> world" where
  "mipi_dbi_spi_init h dc w = (spi_init h dc, w @ [MipiDbiSpiInit dc])"

definition drm_panel_add :: "world \<Rightarrow> world" where
  "drm_panel_add w = w @ [DrmPanelAdd]"

definition ili9806e_probe :: "host \<Rightarrow> world \<Rightarrow> int \<times> world" where
  "ili9806e_probe h w0 =
     (case devm_kzalloc h w0 of (ctx, w1) \<Rightarrow>
      if ctx = NULL then (- ENOMEM, w1)
      else
        let w2 = drm_panel_init w1;
            w3 = spi_set_drvdata w2
        in case devm_gpiod_get h ''reset'' w3 of (reset, w4) \<Rightarrow>
           if IS_ERR reset then dev_err_probe (int_of_long (PTR_ERR reset)) w4
           else
             case drm_panel_of_backlight h w4 of (err, w5) \<Rightarrow>
             if err \<noteq> 0 then dev_err_probe err w5
             else
               case mipi_dbi_spi_init h NULL w5 of (err, w6) \<Rightarrow>
               if err \<noteq> 0 then dev_err_probe err w6
               else (0, drm_panel_add w6))"

section \<open>The ST7789V driver\<close>

definition ST7789V_MY :: "64 word" where
  "ST7789V_MY = BIT 7"

definition ST7789V_MX :: "64 word" where
  "ST7789V_MX = BIT 6"

definition ST7789V_MV :: "64 word" where
  "ST7789V_MV = BIT 5"

definition ST7789V_RGB :: "64 word" where
  "ST7789V_RGB = BIT 3"

text \<open>Of \<open>struct mipi_dbi_dev\<close> the enable path reads the rotation.\<close>

record mipi_dbi_dev =
  rotation :: u32

text \<open>
  Modelled from the spec: \<open>drm_dev_enter\<close>, \<open>drm_dev_exit\<close>,
  \<open>mipi_dbi_poweron_reset\<close> and \<open>mipi_dbi_enable_flush\<close> are not part of the
  sources at hand; each records its call, and the first two answer what the host says.
\<close>

definition drm_dev_enter :: "host \<Rightarrow> world \<Rightarrow> bool \<times> world" where
  "drm_dev_enter h w = (dev_enter h, w @ [DrmDevEnter])"

definition drm_dev_exit :: "world \<Rightarrow> world" where
  "drm_dev_exit w = w @ [DrmDevExit]"

definition mipi_dbi_poweron_reset :: "host \<Rightarrow> world \<Rightarrow> int \<times> world" where
  "mipi_dbi_poweron_reset h w = (poweron_reset h, w @ [MipiDbiPoweronReset])"

definition mipi_dbi_enable_flush :: "world \<Rightarrow> world" where
  "mipi_dbi_enable_flush w = w @ [MipiDbiEnableFlush]"

text \<open>The \<open>switch (dbidev->rotation)\<close> of \<open>st7789v_pipe_enable\<close>, assigned to a \<open>uint8_t\<close>.\<close>

definition st7789v_addr_mode :: "u32 \<Rightarrow> u8" where
  "st7789v_addr_mode rot =
     (if rot = 90 then ucast (ST7789V_MX OR ST7789V_MV)
      else if rot = 180 then ucast (ST7789V_MX OR ST7789V_MY)
      else if rot = 270 then ucast (ST7789V_MY OR ST7789V_MV)
      else 0)"

definition st7789v_pipe_enable :: "host \<Rightarrow> mipi_dbi_dev \<Rightarrow> world \<Rightarrow> world" where
  "st7789v_pipe_enable h dbidev w0 =
     (case drm_dev_enter h w0 of (entered, w1) \<Rightarrow>
      if \<not> entered then w1
      else
        case mipi_dbi_poweron_reset h w1 of (ret, w2) \<Rightarrow>
        let w3 = (if ret \<noteq> 0 then drm_dev_exit w2 else w2);
            w4 = stmts [
              discard (mipi_dbi_command h MIPI_DCS_SET_PIXEL_FORMAT [0x05]),
              discard (mipi_dbi_command h 0xB2 [0x0C, 0x0C, 0x00, 0x33, 0x33]),
              discard (mipi_dbi_command h 0xB7 [0x35]),
              discard (mipi_dbi_command h 0xBB [0x19]),
              discard (mipi_dbi_command h 0xC0 [0x2C]),
              discard (mipi_dbi_command h 0xC2 [0x01]),
              discard (mipi_dbi_command h 0xC3 [0x12]),
              discard (mipi_dbi_command h 0xC4 [0x20]),
              discard (mipi_dbi_command h 0xC6 [0x0F]),
              discard (mipi_dbi_command h 0xD0 [0xA4, 0xA1]),
              discard (mipi_dbi_command h 0xE0 [0xD0, 0x04, 0x0D, 0x11, 0x13, 0x2B, 0x3F,
                                                0x54, 0x4C, 0x18, 0x0D, 0x0B, 0x1F, 0x23]),
              discard (mipi_dbi_command h 0xE1 [0xD0, 0x04, 0x0C, 0x11, 0x13, 0x2C, 0x3F,
                                                0x44, 0x51, 0x2F, 0x1F, 0x1F, 0x20, 0x23]),
              discard (mipi_dbi_command h MIPI_DCS_ENTER_NORMAL_MODE [])] w3;
            addr_mode = st7789v_addr_mode (rotation dbidev)
        in stmts [
             discard (mipi_dbi_command h MIPI_DCS_SET_ADDRESS_MODE [addr_mode]),
             discard (mipi_dbi_command h MIPI_DCS_EXIT_SLEEP_MODE []),
             discard (mipi_dbi_command h MIPI_DCS_SET_DISPLAY_ON []),
             msleep 20,
             mipi_dbi_enable_flush] w4)"

text \<open>
  Modelled from the spec: the remaining functions \<open>st7789v_probe\<close> calls are not part of
  the sources at hand. Each records its call and answers what the host says;
  \<open>device_property_read_u32\<close> overwrites the value only when the property exists.
\<close>

definition devm_drm_dev_alloc :: "host \<Rightarrow> world \<Rightarrow> ptr \<times> world" where
  "devm_drm_dev_alloc h w = (drm_dev_alloc_result h, w @ [DevmDrmDevAlloc])"

definition DRM_DEV_ERROR :: "world \<Rightarrow> world" where
  "DRM_DEV_ERROR w = w @ [DrmDevError]"

definition devm_of_find_backlight :: "host \<Rightarrow> world \<Rightarrow> ptr \<times> world" where
  "devm_of_find_backlight h w = (of_find_backlight h, w @ [DevmOfFindBacklight])"

definition device_property_read_u32 :: "host \<Rightarrow> string \<Rightarrow> u32 \<Rightarrow> world \<Rightarrow> u32 \<times> world" where
  "device_property_read_u32 h propname val w =
     ((case device_property h propname of None \<Rightarrow> val | Some v \<Rightarrow> v),
      w @ [DevicePropertyReadU32 propname])"

definition mipi_dbi_dev_init :: "host \<Rightarrow> u32 \<Rightarrow> world \<Rightarrow> int \<times> world" where
  "mipi_dbi_dev_init h rot w = (dev_init h rot, w @ [MipiDbiDevInit rot])"

definition drm_mode_config_reset :: "world \<Rightarrow> world" where
  "drm_mode_config_reset w = w @ [DrmModeConfigReset]"

definition drm_dev_register :: "host \<Rightarrow> world \<Rightarrow> int \<times> world" where
  "drm_dev_register h w = (dev_register h, w @ [DrmDevRegister])"

definition drm_fbdev_generic_setup :: "world \<Rightarrow> world" where
  "drm_fbdev_generic_setup w = w @ [DrmFbdevGenericSetup]"

definition dev_info :: "world \<Rightarrow> world" where
  "dev_info w = w @ [DevInfo]"

definition st7789v_probe :: "host \<Rightarrow> world \<Rightarrow> int \<times> world" where
  "st7789v_probe h w0 =
     (let rotation0 = 0 in
      case devm_drm_dev_alloc h w0 of (dbidev, w1) \<Rightarrow>
      if IS_ERR dbidev then (int_of_long (PTR_ERR dbidev), w1)
      else
        case devm_gpiod_get_optional h ''reset'' w1 of (reset, w2) \<Rightarrow>
        if IS_ERR reset then (int_of_long (PTR_ERR reset), DRM_DEV_ERROR w2)
        else
          case devm_gpiod_get_optional h ''dc'' w2 of (dc, w3) \<Rightarrow>
          if IS_ERR dc then (int_of_long (PTR_ERR dc), DRM_DEV_ERROR w3)
          else
            case devm_of_find_backlight h w3 of (backlight, w4) \<Rightarrow>
            case device_property_read_u32 h ''rotation'' rotation0 w4 of (rot, w5) \<Rightarrow>
            case mipi_dbi_spi_init h dc w5 of (ret, w6) \<Rightarrow>
            if ret \<noteq> 0 then (ret, w6)
            else
              case mipi_dbi_dev_init h rot w6 of (ret, w7) \<Rightarrow>
              if ret \<noteq> 0 then (ret, w7)
              else
                let w8 = drm_mode_config_reset w7 in
                case drm_dev_register h w8 of (ret, w9) \<Rightarrow>
                if ret \<noteq> 0 then (ret, w9)
                else (0, dev_info (drm_fbdev_generic_setup (spi_set_drvdata w9))))"

section \<open>Reference sequences and hosts\<close>

text \<open>
  The sequence that \<open>ili9806e_prepare\<close> is expected to put on the bus between the reset
  pulse and the closing DCS commands, written page by page as (register, value) pairs
  for comparison with what the function does.
\<close>

definition reg_write :: "u8 \<times> u8 \<Rightarrow> call" where
  "reg_write rv = MipiDbiCommand (fst rv) [snd rv]"

definition page_select :: "u8 \<Rightarrow> call" where
  "page_select p = MipiDbiCommand 0xff [0xff, 0x98, 0x06, 0x04, p]"

definition ili9806e_page1_writes :: "(u8 \<times> u8) list" where
  "ili9806e_page1_writes = [
     (0x08, 0x10), (0x21, 0x01), (0x30, 0x02), (0x31, 0x00), (0x40, 0x10), (0x41, 0x55),
     (0x42, 0x02), (0x43, 0x09), (0x44, 0x07), (0x50, 0x78), (0x51, 0x78), (0x52, 0x00),
     (0x53, 0x6d), (0x60, 0x07), (0x61, 0x00), (0x62, 0x08), (0x63, 0x00), (0xa0, 0x00),
     (0xa1, 0x07), (0xa2, 0x0c), (0xa3, 0x0b), (0xa4, 0x03), (0xa5, 0x07), (0xa6, 0x06),
     (0xa7, 0x04), (0xa8, 0x08), (0xa9, 0x0c), (0xaa, 0x13), (0xab, 0x06), (0xac, 0x0d),
     (0xad, 0x19), (0xae, 0x10), (0xaf, 0x00), (0xc0, 0x00), (0xc1, 0x07), (0xc2, 0x0c),
     (0xc3, 0x0b), (0xc4, 0x03), (0xc5, 0x07), (0xc6, 0x07), (0xc7, 0x04), (0xc8, 0x08),
     (0xc9, 0x0c), (0xca, 0x13), (0xcb, 0x06), (0xcc, 0x0d), (0xcd, 0x18), (0xce, 0x10),
     (0xcf, 0x00)]"

definition ili9806e_page6_writes :: "(u8 \<times> u8) list" where
  "ili9806e_page6_writes = [
     (0x00, 0x20), (0x01, 0x0a), (0x02, 0x00), (0x03, 0x00), (0x04, 0x01), (0x05, 0x01),
     (0x06, 0x98), (0x07, 0x06), (0x08, 0x01), (0x09, 0x80), (0x0a, 0x00), (0x0b, 0x00),
     (0x0c, 0x01), (0x0d, 0x01), (0x0e, 0x00), (0x0f, 0x00), (0x10, 0xf0), (0x11, 0xf4),
     (0x12, 0x01), (0x13, 0x00), (0x14, 0x00), (0x15, 0xc0), (0x16, 0x08), (0x17, 0x00),
     (0x18, 0x00), (0x19, 0x00), (0x1a, 0x00), (0x1b, 0x00), (0x1c, 0x00), (0x1d, 0x00),
     (0x20, 0x01), (0x21, 0x23), (0x22, 0x45), (0x23, 0x67), (0x24, 0x01), (0x25, 0x23),
     (0x26, 0x45), (0x27, 0x67), (0x30, 0x11), (0x31, 0x11), (0x32, 0x00), (0x33, 0xee),
     (0x34, 0xff), (0x35, 0xbb), (0x36, 0xaa), (0x37, 0xdd), (0x38, 0xcc), (0x39, 0x66),
     (0x3a, 0x77), (0x3b, 0x22), (0x3c, 0x22), (0x3d, 0x22), (0x3e, 0x22), (0x3f, 0x22),
     (0x40, 0x22), (0x52, 0x10), (0x53, 0x10)]"

definition ili9806e_page7_writes :: "(u8 \<times> u8) list" where
  "ili9806e_page7_writes = [(0x17, 0x22), (0x02, 0x77), (0xe1, 0x79)]"

definition ili9806e_init_sequence :: "call list" where
  "ili9806e_init_sequence =
     page_select 1 # map reg_write ili9806e_page1_writes @
     page_select 6 # map reg_write ili9806e_page6_writes @
     page_select 7 # map reg_write ili9806e_page7_writes @
     [page_select 0]"

text \<open>
  Reading a bus trace by page: \<open>selected_page\<close> recognises a page switch,
  \<open>writes_by_page\<close> pairs every other bus command with the page selected last
  (\<open>None\<close> before the first switch), \<open>to_page_register\<close> picks the commands sent to the
  page-switching register.
\<close>

fun selected_page :: "call \<Rightarrow> u8 option" where
  "selected_page (MipiDbiCommand c [a, b, e, f, p]) =
     (if c = 0xff \<and> a = 0xff \<and> b = 0x98 \<and> e = 0x06 \<and> f = 0x04 then Some p else None)"
| "selected_page _ = None"

fun writes_by_page :: "u8 option \<Rightarrow> call list \<Rightarrow> (u8 option \<times> u8 \<times> u8 list) list" where
  "writes_by_page cur [] = []"
| "writes_by_page cur (MipiDbiCommand c d # cs) =
     (case selected_page (MipiDbiCommand c d) of
        Some p \<Rightarrow> writes_by_page (Some p) cs
      | None \<Rightarrow> (cur, c, d) # writes_by_page cur cs)"
| "writes_by_page cur (_ # cs) = writes_by_page cur cs"

fun to_page_register :: "call \<Rightarrow> bool" where
  "to_page_register (MipiDbiCommand c d) = (c = 0xff)"
| "to_page_register _ = False"

text \<open>
  A GPIO line that cannot make an optional lookup fail: the device has no line of this
  name, or the line it has is found without error.
\<close>

definition absent_or_found :: "host \<Rightarrow> string \<Rightarrow> bool" where
  "absent_or_found h n = (case gpio_line h n of None \<Rightarrow> True | Some p \<Rightarrow> \<not> IS_ERR p)"

text \<open>The calls one invocation adds to the record it started from.\<close>

definition emitted :: "world \<Rightarrow> world \<Rightarrow> call list" where
  "emitted w w' = drop (length w) w'"




text \<open>
  The calls of \<open>st7789v_pipe_enable\<close> that follow the power-on reset when the whole
  enable path is run, for a given rotation.
\<close>

definition st7789v_enable_sequence :: "u32 \<Rightarrow> call list" where
  "st7789v_enable_sequence rot = [
     MipiDbiCommand 0x3A [0x05],
     MipiDbiCommand 0xB2 [0x0C, 0x0C, 0x00, 0x33, 0x33],
     MipiDbiCommand 0xB7 [0x35],
     MipiDbiCommand 0xBB [0x19],
     MipiDbiCommand 0xC0 [0x2C],
     MipiDbiCommand 0xC2 [0x01],
     MipiDbiCommand 0xC3 [0x12],
     MipiDbiCommand 0xC4 [0x20],
     MipiDbiCommand 0xC6 [0x0F],
     MipiDbiCommand 0xD0 [0xA4, 0xA1],
     MipiDbiCommand 0xE0 [0xD0, 0x04, 0x0D, 0x11, 0x13, 0x2B, 0x3F,
                          0x54, 0x4C, 0x18, 0x0D, 0x0B, 0x1F, 0x23],
     MipiDbiCommand 0xE1 [0xD0, 0x04, 0x0C, 0x11, 0x13, 0x2C, 0x3F,
                          0x44, 0x51, 0x2F, 0x1F, 0x1F, 0x20, 0x23],
     MipiDbiCommand 0x13 [],
     MipiDbiCommand 0x36 [st7789v_addr_mode rot],
     MipiDbiCommand 0x11 [],
     MipiDbiCommand 0x29 [],
     Msleep 20,
     MipiDbiEnableFlush]"

fun is_set_address_mode :: "call \<Rightarrow> bool" where
  "is_set_address_mode (MipiDbiCommand c d) = (c = MIPI_DCS_SET_ADDRESS_MODE)"
| "is_set_address_mode _ = False"

text \<open>
  A host on which everything succeeds: both GPIO lines exist, every allocation and
  lookup gives a valid pointer, every status is 0. The hosts of the examples below
  differ from it in one answer each.
\<close>

definition good_host :: host where
  "good_host = \<lparr>
     dbi_status = (\<lambda>w cmd d. 0),
     kzalloc_result = 0xffff888000001000,
     gpio_line = (\<lambda>n. if n = ''reset'' then Some 0xffff888000002000
                       else if n = ''dc'' then Some 0xffff888000003000 else None),
     panel_of_backlight = 0,
     spi_init = (\<lambda>dc. 0),
     drm_dev_alloc_result = 0xffff888000004000,
     of_find_backlight = 0xffff888000005000,
     device_property = (\<lambda>n. None),
     dev_init = (\<lambda>rot. 0),
     dev_register = 0,
     dev_enter = True,
     poweron_reset = 0\<rparr>"

definition EIO :: int where
  "EIO = 5"

definition ENODEV :: int where
  "ENODEV = 19"


definition no_gpio_host :: host where
  "no_gpio_host = good_host\<lparr>gpio_line := (\<lambda>n. None)\<rparr>"

definition reset_only_host :: host where
  "reset_only_host =
     good_host\<lparr>gpio_line := (\<lambda>n. if n = ''reset'' then Some 0xffff888000002000 else None)\<rparr>"

definition no_backlight_host :: host where
  "no_backlight_host = good_host\<lparr>of_find_backlight := ERR_PTR (- ENODEV)\<rparr>"

definition failed_spi_host :: host where
  "failed_spi_host = good_host\<lparr>spi_init := (\<lambda>dc. - EIO)\<rparr>"

definition failed_reset_host :: host where
  "failed_reset_host = good_host\<lparr>poweron_reset := - EIO\<rparr>"

definition good_core :: drm_core where
  "good_core = \<lparr>mode_duplicate_ok = True, bus_formats_ok = True,
                 print_mode_name = (\<lambda>m. ''480x800'')\<rparr>"

definition empty_connector :: drm_connector where
  "empty_connector = \<lparr>
     display_info = \<lparr>info_width_mm = 0, info_height_mm = 0, bus_formats = []\<rparr>,
     probed_modes = []\<rparr>"

section \<open>Basic facts about statements\<close>

lemma stmts_Nil: "stmts [] w = w"
  by (simp add: stmts_def)

lemma stmts_Cons: "stmts (f # fs) w = stmts fs (f w)"
  by (simp add: stmts_def)

lemma discard_command:
  "discard (mipi_dbi_command h cmd d) w = w @ [MipiDbiCommand cmd d]"
  by (simp add: discard_def mipi_dbi_command_def)

lemma discard_switch_page:
  "discard (ili9806e_switch_page h ctx page) w =
     w @ [MipiDbiCommand 0xff [0xff, 0x98, 0x06, 0x04, ucast page]]"
  by (simp add: ili9806e_switch_page_def discard_command ILI9806E_Px_ENEXTC_def)

lemmas dcs_defs =
  MIPI_DCS_ENTER_SLEEP_MODE_def MIPI_DCS_EXIT_SLEEP_MODE_def MIPI_DCS_ENTER_NORMAL_MODE_def
  MIPI_DCS_SET_DISPLAY_OFF_def MIPI_DCS_SET_DISPLAY_ON_def MIPI_DCS_SET_TEAR_ON_def
  MIPI_DCS_SET_ADDRESS_MODE_def MIPI_DCS_SET_PIXEL_FORMAT_def

lemmas ili9806e_reg_defs =
  ILI9806E_P1_IFMODE1_def IFMODE1_SDO_STATUS_def ILI9806E_P1_DISCTRL2_def DISCTRL2_EPL_def
  ILI9806E_P1_RESCTRL_def RESCTRL_480x800_def ILI9806E_P1_INVTR_def INVTR_NLA_COLUMN_def
  ILI9806E_P1_PWCTRL1_def ILI9806E_P1_PWCTRL2_def ILI9806E_P1_PWCTRL3_def
  ILI9806E_P1_PWCTRL4_def ILI9806E_P1_PWCTRL5_def ILI9806E_P1_PWCTRL9_def
  ILI9806E_P1_PWCTRL10_def ILI9806E_P1_VMCTRL1_def ILI9806E_P1_VMCTRL2_def
  ILI9806E_P1_SRCTADJ1_def ILI9806E_P1_SRCTADJ2_def ILI9806E_P1_SRCTADJ3_def
  ILI9806E_P1_SRCTADJ4_def ILI9806E_P1_P_GAMMA_def ILI9806E_P1_N_GAMMA_def
  ILI9806E_P7_VGLREGEN_def ILI9806E_P7_0x02_def ILI9806E_P7_0xe1_def
  ILI9806E_Px_ENEXTC_def BIT_def

lemma emitted_append: "emitted w (w @ cs) = cs"
  by (simp add: emitted_def)

section \<open>Error pointers carry negative codes\<close>

lemma IS_ERR_negative: "IS_ERR p \<Longrightarrow> int_of_long (PTR_ERR p) < 0"
proof -
  assume "IS_ERR p"
  then have u: "2 ^ 64 - 4095 \<le> uint p"
    by (simp add: IS_ERR_def MAX_ERRNO_def word_le_def)
  have ub: "uint p < 2 ^ 64"
    using uint_bounded [of p] by simp
  have e: "uint (ucast p :: 32 word) = uint p mod 2 ^ 32"
    by (simp add: unsigned_ucast_eq take_bit_eq_mod)
  have m: "uint p mod 2 ^ 32 = uint p - (2 ^ 32 - 1) * 2 ^ 32"
    using u ub by (simp add: int_mod_pos_eq [where q = "2 ^ 32 - 1"])
  have lo: "2 ^ 31 \<le> uint (ucast p :: 32 word)"
    using u e m by simp
  have hi: "uint (ucast p :: 32 word) < 2 ^ 32"
    using uint_bounded [of "ucast p :: 32 word"] by simp
  have "sint (ucast p :: 32 word) \<le> uint (ucast p :: 32 word) - 2 ^ 32"
    using signed_take_bit_int_less_eq [of 31 "uint (ucast p :: 32 word)"] lo
    by (simp add: sint_uint)
  then show ?thesis
    using hi by (simp add: int_of_long_def PTR_ERR_def)
qed

section \<open>Power sequencing of the ILI9806E\<close>

lemma ili9806e_prepare_world:
  "snd (ili9806e_prepare h ctx w) =
     w @ [GpiodSetValue (dbi_reset ctx) 1, UsleepRange 15 50,
          GpiodSetValue (dbi_reset ctx) 0, Msleep 125]
       @ ili9806e_init_sequence
       @ [MipiDbiCommand MIPI_DCS_SET_TEAR_ON [], MipiDbiCommand MIPI_DCS_EXIT_SLEEP_MODE [],
          Msleep 120, MipiDbiCommand MIPI_DCS_SET_DISPLAY_ON []]"
  by (simp add: ili9806e_prepare_def stmts_Cons stmts_Nil discard_command discard_switch_page
     gpiod_set_value_def usleep_range_def msleep_def ili9806e_reg_defs dcs_defs
     ili9806e_init_sequence_def page_select_def reg_write_def
     ili9806e_page1_writes_def ili9806e_page6_writes_def ili9806e_page7_writes_def)



text \<open>
  C5. Every invocation of \<open>ili9806e_prepare\<close> makes the same calls, whatever the bus
  answers and whatever was done before: the reset line is set to 1, a sleep of 15 to 50
  microseconds (at least the 10 required), the reset line is set to 0, a sleep of 125
  milliseconds (at least the 120 required); then the fixed sequence of register writes;
  then tear-on, exit-sleep, a sleep of 120 milliseconds and display-on.
\<close>

theorem ili9806e_prepare_sequence:
  "snd (ili9806e_prepare h ctx w) =
     w @ [GpiodSetValue (dbi_reset ctx) 1, UsleepRange 15 50,
          GpiodSetValue (dbi_reset ctx) 0, Msleep 125]
       @ ili9806e_init_sequence
       @ [MipiDbiCommand MIPI_DCS_SET_TEAR_ON [], MipiDbiCommand MIPI_DCS_EXIT_SLEEP_MODE [],
          Msleep 120, MipiDbiCommand MIPI_DCS_SET_DISPLAY_ON []] \<and>
   emitted w (snd (ili9806e_prepare h ctx w)) = emitted w' (snd (ili9806e_prepare h' ctx w'))"
  by (simp only: ili9806e_prepare_world emitted_append simp_thms)

text \<open>
  C6. Power-off and suspend make exactly two calls, both bus commands: set-display-off
  (0x28), then enter-sleep-mode (0x10), each with the parameter byte 0.
\<close>

theorem ili9806e_power_off_sequence:
  "snd (ili9806e_unprepare h ctx w) =
     w @ [MipiDbiCommand MIPI_DCS_SET_DISPLAY_OFF [0x00],
          MipiDbiCommand MIPI_DCS_ENTER_SLEEP_MODE [0x00]] \<and>
   snd (ili9806e_suspend h ctx w) =
     w @ [MipiDbiCommand MIPI_DCS_SET_DISPLAY_OFF [0x00],
          MipiDbiCommand MIPI_DCS_ENTER_SLEEP_MODE [0x00]] \<and>
   MIPI_DCS_SET_DISPLAY_OFF = 0x28 \<and> MIPI_DCS_ENTER_SLEEP_MODE = 0x10"
  by (simp add: ili9806e_unprepare_def ili9806e_suspend_def stmts_Cons stmts_Nil
      discard_command dcs_defs)

lemma ili9806e_writes_by_page:
  "writes_by_page None
     ([GpiodSetValue r 1, UsleepRange 15 50, GpiodSetValue r 0, Msleep 125]
       @ ili9806e_init_sequence
       @ [MipiDbiCommand MIPI_DCS_SET_TEAR_ON [], MipiDbiCommand MIPI_DCS_EXIT_SLEEP_MODE [],
          Msleep 120, MipiDbiCommand MIPI_DCS_SET_DISPLAY_ON []]) =
   map (\<lambda>rv. (Some 1, fst rv, [snd rv])) ili9806e_page1_writes @
   map (\<lambda>rv. (Some 6, fst rv, [snd rv])) ili9806e_page6_writes @
   map (\<lambda>rv. (Some 7, fst rv, [snd rv])) ili9806e_page7_writes @
   [(Some 0, 0x35, []), (Some 0, 0x11, []), (Some 0, 0x29, [])]"
  by (simp add: ili9806e_init_sequence_def page_select_def reg_write_def dcs_defs
     ili9806e_page1_writes_def ili9806e_page6_writes_def ili9806e_page7_writes_def)

text \<open>
  C10. Among the calls of one \<open>ili9806e_prepare\<close>: the commands sent to the
  page-switching register 0xff are four, each with the bytes 0xff, 0x98, 0x06, 0x04 and
  the page number, for the pages 1, 6, 7 and 0 in this order; every other bus command is
  sent while a page is selected, and the pages under which they are sent are 1, then 6,
  then 7, then 0; the commands sent under page 0 are the three DCS commands tear-on,
  exit-sleep and display-on; the commands sent under the pages 1, 6 and 7 are the vendor
  register writes, one data byte each.
\<close>

theorem ili9806e_prepare_pages:
  "filter to_page_register (emitted w (snd (ili9806e_prepare h ctx w))) =
     [page_select 1, page_select 6, page_select 7, page_select 0] \<and>
   remdups_adj (map fst (writes_by_page None (emitted w (snd (ili9806e_prepare h ctx w))))) =
     [Some 1, Some 6, Some 7, Some 0] \<and>
   map snd (filter (\<lambda>x. fst x = Some 0)
              (writes_by_page None (emitted w (snd (ili9806e_prepare h ctx w))))) =
     [(MIPI_DCS_SET_TEAR_ON, []), (MIPI_DCS_EXIT_SLEEP_MODE, []), (MIPI_DCS_SET_DISPLAY_ON, [])] \<and>
   map snd (filter (\<lambda>x. fst x \<noteq> Some 0)
              (writes_by_page None (emitted w (snd (ili9806e_prepare h ctx w))))) =
     map (\<lambda>rv. (fst rv, [snd rv]))
       (ili9806e_page1_writes @ ili9806e_page6_writes @ ili9806e_page7_writes)"
  apply (simp only: ili9806e_prepare_world emitted_append ili9806e_writes_by_page)
  apply (simp add: ili9806e_init_sequence_def page_select_def reg_write_def dcs_defs
     ili9806e_page1_writes_def ili9806e_page6_writes_def ili9806e_page7_writes_def)
  done

section \<open>Probing\<close>

lemmas host_call_defs =
  devm_kzalloc_def drm_panel_init_def spi_set_drvdata_def devm_gpiod_get_def
  devm_gpiod_get_optional_def dev_err_probe_def drm_panel_of_backlight_def
  mipi_dbi_spi_init_def drm_panel_add_def devm_drm_dev_alloc_def DRM_DEV_ERROR_def
  devm_of_find_backlight_def device_property_read_u32_def mipi_dbi_dev_init_def
  drm_mode_config_reset_def drm_dev_register_def drm_fbdev_generic_setup_def dev_info_def


lemma not_IS_ERR_NULL: "\<not> IS_ERR NULL"
  by (simp add: IS_ERR_def NULL_def MAX_ERRNO_def)

lemma IS_ERR_ENOENT:
  "IS_ERR (ERR_PTR (- ENOENT))"
  "int_of_long (PTR_ERR (ERR_PTR (- ENOENT))) = - ENOENT"
  by (simp_all add: IS_ERR_def ERR_PTR_def ENOENT_def MAX_ERRNO_def int_of_long_def PTR_ERR_def)

lemma IS_ERR_ENODEV: "IS_ERR (ERR_PTR (- ENODEV))"
  by (simp add: IS_ERR_def ERR_PTR_def ENODEV_def MAX_ERRNO_def)

lemma gpiod_get_absent:
  "gpio_line h n = None \<Longrightarrow> fst (devm_gpiod_get h n w) = ERR_PTR (- ENOENT)"
  "gpio_line h n = None \<Longrightarrow> fst (devm_gpiod_get_optional h n w) = NULL"
  by (simp_all add: devm_gpiod_get_def devm_gpiod_get_optional_def)

text \<open>The paths through the two probe functions, one branch per return statement.\<close>

lemma ili9806e_probe_cases:
  "ili9806e_probe h w =
     (if kzalloc_result h = NULL then (- ENOMEM, w @ [DevmKzalloc])
      else if IS_ERR (fst (devm_gpiod_get h ''reset'' []))
      then (int_of_long (PTR_ERR (fst (devm_gpiod_get h ''reset'' []))),
            w @ [DevmKzalloc, DrmPanelInit, SpiSetDrvdata, DevmGpiodGet ''reset'',
                 DevErrProbe (int_of_long (PTR_ERR (fst (devm_gpiod_get h ''reset'' []))))])
      else if panel_of_backlight h \<noteq> 0
      then (panel_of_backlight h,
            w @ [DevmKzalloc, DrmPanelInit, SpiSetDrvdata, DevmGpiodGet ''reset'',
                 DrmPanelOfBacklight, DevErrProbe (panel_of_backlight h)])
      else if spi_init h NULL \<noteq> 0
      then (spi_init h NULL,
            w @ [DevmKzalloc, DrmPanelInit, SpiSetDrvdata, DevmGpiodGet ''reset'',
                 DrmPanelOfBacklight, MipiDbiSpiInit NULL, DevErrProbe (spi_init h NULL)])
      else (0, w @ [DevmKzalloc, DrmPanelInit, SpiSetDrvdata, DevmGpiodGet ''reset'',
                    DrmPanelOfBacklight, MipiDbiSpiInit NULL, DrmPanelAdd]))"
  by (simp add: ili9806e_probe_def host_call_defs Let_def)

lemma st7789v_probe_cases:
  "st7789v_probe h w =
     (let reset = fst (devm_gpiod_get_optional h ''reset'' []);
          dc = fst (devm_gpiod_get_optional h ''dc'' []);
          rot = fst (device_property_read_u32 h ''rotation'' 0 []);
          acquired = [DevmDrmDevAlloc, DevmGpiodGetOptional ''reset'',
                      DevmGpiodGetOptional ''dc'', DevmOfFindBacklight,
                      DevicePropertyReadU32 ''rotation'', MipiDbiSpiInit dc]
      in if IS_ERR (drm_dev_alloc_result h)
         then (int_of_long (PTR_ERR (drm_dev_alloc_result h)), w @ [DevmDrmDevAlloc])
         else if IS_ERR reset
         then (int_of_long (PTR_ERR reset),
               w @ [DevmDrmDevAlloc, DevmGpiodGetOptional ''reset'', DrmDevError])
         else if IS_ERR dc
         then (int_of_long (PTR_ERR dc),
               w @ [DevmDrmDevAlloc, DevmGpiodGetOptional ''reset'',
                    DevmGpiodGetOptional ''dc'', DrmDevError])
         else if spi_init h dc \<noteq> 0 then (spi_init h dc, w @ acquired)
         else if dev_init h rot \<noteq> 0
         then (dev_init h rot, w @ acquired @ [MipiDbiDevInit rot])
         else if dev_register h \<noteq> 0
         then (dev_register h,
               w @ acquired @ [MipiDbiDevInit rot, DrmModeConfigReset, DrmDevRegister])
         else (0, w @ acquired @ [MipiDbiDevInit rot, DrmModeConfigReset, DrmDevRegister,
                                  SpiSetDrvdata, DrmFbdevGenericSetup, DevInfo]))"
  by (simp add: st7789v_probe_def host_call_defs Let_def)

lemma good_host_simps:
  "kzalloc_result good_host \<noteq> NULL"
  "\<not> IS_ERR (drm_dev_alloc_result good_host)"
  "panel_of_backlight good_host = 0"
  "spi_init good_host dc = 0"
  "dev_init good_host rot = 0"
  "dev_register good_host = 0"
  "device_property good_host n = None"
  "\<not> IS_ERR (of_find_backlight good_host)"
  "fst (devm_gpiod_get good_host ''reset'' []) = 0xffff888000002000"
  "fst (devm_gpiod_get_optional good_host ''reset'' []) = 0xffff888000002000"
  "fst (devm_gpiod_get_optional good_host ''dc'' []) = 0xffff888000003000"
  by (simp_all add: good_host_def NULL_def IS_ERR_def MAX_ERRNO_def devm_gpiod_get_def
      devm_gpiod_get_optional_def)


lemma st7789v_probe_ignores_backlight:
  "st7789v_probe (h\<lparr>of_find_backlight := p\<rparr>) w = st7789v_probe h w"
  by (simp add: st7789v_probe_def host_call_defs Let_def)

lemma absent_or_found_optional:
  "absent_or_found h n \<Longrightarrow> \<not> IS_ERR (fst (devm_gpiod_get_optional h n w))"
  by (simp add: absent_or_found_def devm_gpiod_get_optional_def not_IS_ERR_NULL
      split: option.splits)

text \<open>
  C2, as the code has it. In \<open>st7789v_probe\<close> each of the two lines is optional:
  whenever the reset line and the data-command line are each either absent or found
  without error, the probe returns 0 and registers the DRM device, provided the device
  allocation, the SPI initialisation, the device initialisation and the registration
  succeed. \<open>ili9806e_probe\<close> requires the reset line: on a device without one it
  returns a negative status (\<open>-ENOENT\<close>, or \<open>-ENOMEM\<close> when its own allocation has
  already failed) and does not register the panel. It never asks for a data-command
  line, so its outcome does not depend on that line.
\<close>

theorem gpio_lines_optional_or_required:
  "(\<not> IS_ERR (drm_dev_alloc_result h) \<and>
    absent_or_found h ''reset'' \<and> absent_or_found h ''dc'' \<and>
    spi_init h (fst (devm_gpiod_get_optional h ''dc'' [])) = 0 \<and>
    dev_init h (fst (device_property_read_u32 h ''rotation'' 0 [])) = 0 \<and> dev_register h = 0
    \<longrightarrow> fst (st7789v_probe h w) = 0 \<and>
        DrmDevRegister \<in> set (emitted w (snd (st7789v_probe h w)))) \<and>
   (gpio_line h ''reset'' = None
    \<longrightarrow> fst (ili9806e_probe h w) = (if kzalloc_result h = NULL then - ENOMEM else - ENOENT) \<and>
        fst (ili9806e_probe h w) < 0 \<and>
        DrmPanelAdd \<notin> set (emitted w (snd (ili9806e_probe h w)))) \<and>
   ili9806e_probe (h\<lparr>gpio_line := (gpio_line h)(''dc'' := line)\<rparr>) w = ili9806e_probe h w"
proof (intro conjI impI)
  assume a: "\<not> IS_ERR (drm_dev_alloc_result h) \<and>
    absent_or_found h ''reset'' \<and> absent_or_found h ''dc'' \<and>
    spi_init h (fst (devm_gpiod_get_optional h ''dc'' [])) = 0 \<and>
    dev_init h (fst (device_property_read_u32 h ''rotation'' 0 [])) = 0 \<and> dev_register h = 0"
  then have r: "\<not> IS_ERR (fst (devm_gpiod_get_optional h ''reset'' []))"
    and d: "\<not> IS_ERR (fst (devm_gpiod_get_optional h ''dc'' []))"
    by (simp_all add: absent_or_found_optional)
  from a r d show "fst (st7789v_probe h w) = 0"
    by (simp add: st7789v_probe_cases Let_def)
  from a r d show "DrmDevRegister \<in> set (emitted w (snd (st7789v_probe h w)))"
    by (simp add: st7789v_probe_cases Let_def emitted_append)
next
  assume a: "gpio_line h ''reset'' = None"
  then have r: "fst (devm_gpiod_get h ''reset'' []) = ERR_PTR (- ENOENT)"
    by (simp add: gpiod_get_absent)
  from r show e: "fst (ili9806e_probe h w) = (if kzalloc_result h = NULL then - ENOMEM else - ENOENT)"
    by (simp add: ili9806e_probe_cases IS_ERR_ENOENT)
  from e show "fst (ili9806e_probe h w) < 0"
    by (simp add: ENOMEM_def ENOENT_def)
  from r show "DrmPanelAdd \<notin> set (emitted w (snd (ili9806e_probe h w)))"
    by (simp add: ili9806e_probe_cases IS_ERR_ENOENT emitted_append)
next
  show "ili9806e_probe (h\<lparr>gpio_line := (gpio_line h)(''dc'' := line)\<rparr>) w = ili9806e_probe h w"
    by (simp add: ili9806e_probe_def host_call_defs Let_def)
qed

text \<open>
  C2 at a device without GPIO lines and at a device with a reset line only, everything
  else succeeding: \<open>st7789v_probe\<close> returns 0 and registers on both; on the first,
  \<open>ili9806e_probe\<close> returns \<open>-ENOENT\<close> and does not register.
\<close>

theorem gpio_lines_optional_or_required_witness:
  "fst (st7789v_probe no_gpio_host []) = 0 \<and>
   DrmDevRegister \<in> set (emitted [] (snd (st7789v_probe no_gpio_host []))) \<and>
   fst (st7789v_probe reset_only_host []) = 0 \<and>
   DrmDevRegister \<in> set (emitted [] (snd (st7789v_probe reset_only_host []))) \<and>
   fst (ili9806e_probe no_gpio_host []) = - ENOENT \<and>
   DrmPanelAdd \<notin> set (emitted [] (snd (ili9806e_probe no_gpio_host [])))"
proof -
  have st0: "\<not> IS_ERR (drm_dev_alloc_result no_gpio_host) \<and>
    absent_or_found no_gpio_host ''reset'' \<and> absent_or_found no_gpio_host ''dc'' \<and>
    spi_init no_gpio_host (fst (devm_gpiod_get_optional no_gpio_host ''dc'' [])) = 0 \<and>
    dev_init no_gpio_host (fst (device_property_read_u32 no_gpio_host ''rotation'' 0 [])) = 0 \<and>
    dev_register no_gpio_host = 0"
    using good_host_simps by (simp add: no_gpio_host_def absent_or_found_def)
  have st1: "\<not> IS_ERR (drm_dev_alloc_result reset_only_host) \<and>
    absent_or_found reset_only_host ''reset'' \<and> absent_or_found reset_only_host ''dc'' \<and>
    spi_init reset_only_host (fst (devm_gpiod_get_optional reset_only_host ''dc'' [])) = 0 \<and>
    dev_init reset_only_host
      (fst (device_property_read_u32 reset_only_host ''rotation'' 0 [])) = 0 \<and>
    dev_register reset_only_host = 0"
    using good_host_simps
    by (simp add: reset_only_host_def absent_or_found_def IS_ERR_def MAX_ERRNO_def)
  have ili: "gpio_line no_gpio_host ''reset'' = None"
    by (simp add: no_gpio_host_def)
  have k: "kzalloc_result no_gpio_host \<noteq> NULL"
    using good_host_simps by (simp add: no_gpio_host_def)
  from gpio_lines_optional_or_required [of no_gpio_host "[]"] st0 ili
  have "fst (st7789v_probe no_gpio_host []) = 0"
    "DrmDevRegister \<in> set (emitted [] (snd (st7789v_probe no_gpio_host [])))"
    "fst (ili9806e_probe no_gpio_host []) =
       (if kzalloc_result no_gpio_host = NULL then - ENOMEM else - ENOENT)"
    "DrmPanelAdd \<notin> set (emitted [] (snd (ili9806e_probe no_gpio_host [])))"
    by blast+
  moreover from gpio_lines_optional_or_required [of reset_only_host "[]"] st1
  have "fst (st7789v_probe reset_only_host []) = 0"
    "DrmDevRegister \<in> set (emitted [] (snd (st7789v_probe reset_only_host [])))"
    by blast+
  ultimately show ?thesis using k by simp
qed

text \<open>
  C2, as stated, fails for the ILI9806E: on a device that provides neither GPIO line
  and answers every other request with success, \<open>ili9806e_probe\<close> returns a negative
  status.
\<close>

theorem ili9806e_probe_needs_reset_line:
  "gpio_line no_gpio_host ''reset'' = None \<and> gpio_line no_gpio_host ''dc'' = None \<and>
   fst (ili9806e_probe no_gpio_host []) < 0"
proof -
  have n: "gpio_line no_gpio_host ''reset'' = None" "gpio_line no_gpio_host ''dc'' = None"
    by (simp_all add: no_gpio_host_def)
  have k: "kzalloc_result no_gpio_host \<noteq> NULL"
    using good_host_simps by (simp add: no_gpio_host_def)
  have "fst (ili9806e_probe no_gpio_host []) = - ENOENT"
    using n k by (simp add: ili9806e_probe_cases gpiod_get_absent IS_ERR_ENOENT)
  then show ?thesis
    using n by (simp add: ENOENT_def)
qed

text \<open>
  C3, as the code has it. In \<open>ili9806e_probe\<close>, when the reset GPIO, the backlight or
  the SPI initialisation fails (the backlight lookup answering 0 or a negative errno, as
  its contract says), the probe returns a negative status and does not call
  \<open>drm_panel_add\<close>. In \<open>st7789v_probe\<close>, when the reset GPIO, the data-command GPIO
  or the SPI initialisation fails, the probe returns a negative status and does not call
  \<open>drm_dev_register\<close>; what the backlight lookup answers has no effect on the probe.
\<close>

theorem probe_acquisition_failure:
  "(panel_of_backlight h \<le> 0 \<and>
    (IS_ERR (fst (devm_gpiod_get h ''reset'' [])) \<or> panel_of_backlight h < 0 \<or>
     spi_init h NULL < 0)
    \<longrightarrow> fst (ili9806e_probe h w) < 0 \<and>
        DrmPanelAdd \<notin> set (emitted w (snd (ili9806e_probe h w)))) \<and>
   (IS_ERR (fst (devm_gpiod_get_optional h ''reset'' [])) \<or>
    IS_ERR (fst (devm_gpiod_get_optional h ''dc'' [])) \<or>
    spi_init h (fst (devm_gpiod_get_optional h ''dc'' [])) < 0
    \<longrightarrow> fst (st7789v_probe h w) < 0 \<and>
        DrmDevRegister \<notin> set (emitted w (snd (st7789v_probe h w)))) \<and>
   st7789v_probe (h\<lparr>of_find_backlight := p\<rparr>) w = st7789v_probe h w"
proof (intro conjI impI)
  assume a: "panel_of_backlight h \<le> 0 \<and>
    (IS_ERR (fst (devm_gpiod_get h ''reset'' [])) \<or> panel_of_backlight h < 0 \<or>
     spi_init h NULL < 0)"
  show "fst (ili9806e_probe h w) < 0"
    using a IS_ERR_negative [of "fst (devm_gpiod_get h ''reset'' [])"]
    by (auto simp add: ili9806e_probe_cases ENOMEM_def)
  show "DrmPanelAdd \<notin> set (emitted w (snd (ili9806e_probe h w)))"
    using a by (auto simp add: ili9806e_probe_cases emitted_append)
next
  assume a: "IS_ERR (fst (devm_gpiod_get_optional h ''reset'' [])) \<or>
    IS_ERR (fst (devm_gpiod_get_optional h ''dc'' [])) \<or>
    spi_init h (fst (devm_gpiod_get_optional h ''dc'' [])) < 0"
  show "fst (st7789v_probe h w) < 0"
    using a IS_ERR_negative [of "fst (devm_gpiod_get_optional h ''reset'' [])"]
      IS_ERR_negative [of "fst (devm_gpiod_get_optional h ''dc'' [])"]
      IS_ERR_negative [of "drm_dev_alloc_result h"]
    by (auto simp add: st7789v_probe_cases Let_def)
  show "DrmDevRegister \<notin> set (emitted w (snd (st7789v_probe h w)))"
    using a by (auto simp add: st7789v_probe_cases Let_def emitted_append)
next
  show "st7789v_probe (h\<lparr>of_find_backlight := p\<rparr>) w = st7789v_probe h w"
    by (rule st7789v_probe_ignores_backlight)
qed

text \<open>
  C3 at a host whose SPI initialisation answers \<open>-EIO\<close>: both probes return a negative
  status and neither registers.
\<close>

theorem probe_acquisition_failure_witness:
  "fst (ili9806e_probe failed_spi_host []) < 0 \<and>
   DrmPanelAdd \<notin> set (emitted [] (snd (ili9806e_probe failed_spi_host []))) \<and>
   fst (st7789v_probe failed_spi_host []) < 0 \<and>
   DrmDevRegister \<notin> set (emitted [] (snd (st7789v_probe failed_spi_host [])))"
proof -
  have ili: "panel_of_backlight failed_spi_host \<le> 0 \<and>
    (IS_ERR (fst (devm_gpiod_get failed_spi_host ''reset'' [])) \<or>
     panel_of_backlight failed_spi_host < 0 \<or> spi_init failed_spi_host NULL < 0)"
    by (simp add: failed_spi_host_def good_host_def EIO_def)
  have st: "IS_ERR (fst (devm_gpiod_get_optional failed_spi_host ''reset'' [])) \<or>
    IS_ERR (fst (devm_gpiod_get_optional failed_spi_host ''dc'' [])) \<or>
    spi_init failed_spi_host (fst (devm_gpiod_get_optional failed_spi_host ''dc'' [])) < 0"
    by (simp add: failed_spi_host_def good_host_def EIO_def)
  from probe_acquisition_failure [of failed_spi_host "[]"] ili st show ?thesis
    by blast
qed

text \<open>
  C3, as stated, fails for the ST7789V: when the backlight lookup answers the error
  pointer of \<open>-ENODEV\<close> and everything else succeeds, \<open>st7789v_probe\<close> returns 0 and
  registers the DRM device.
\<close>

theorem st7789v_probe_backlight_failure:
  "IS_ERR (fst (devm_of_find_backlight no_backlight_host [])) \<and>
   fst (st7789v_probe no_backlight_host []) = 0 \<and>
   DrmDevRegister \<in> set (emitted [] (snd (st7789v_probe no_backlight_host [])))"
proof -
  have "st7789v_probe no_backlight_host [] = st7789v_probe good_host []"
    unfolding no_backlight_host_def by (rule st7789v_probe_ignores_backlight)
  moreover have "fst (st7789v_probe good_host []) = 0"
    "DrmDevRegister \<in> set (emitted [] (snd (st7789v_probe good_host [])))"
    using good_host_simps
    by (simp_all add: st7789v_probe_cases Let_def emitted_def IS_ERR_def MAX_ERRNO_def)
  moreover have "IS_ERR (fst (devm_of_find_backlight no_backlight_host []))"
    by (simp add: devm_of_find_backlight_def no_backlight_host_def IS_ERR_ENODEV)
  ultimately show ?thesis by simp
qed










section \<open>Display modes of the ILI9806E\<close>

text \<open>
  C7. When the mode duplication succeeds, \<open>ili9806e_get_modes\<close> returns 1 and the
  connector's list of probed modes grows by exactly one mode, at its tail: the fixed
  mode \<open>nds040480800_v3_mode\<close> (480 by 800) with its name filled in. When the
  duplication fails, it returns \<open>-ENOMEM\<close> (-12) and leaves the connector as it was.
\<close>

theorem ili9806e_get_modes_one_mode:
  "(mode_duplicate_ok k \<longrightarrow>
      fst (ili9806e_get_modes k c) = 1 \<and>
      probed_modes (snd (ili9806e_get_modes k c)) =
        probed_modes c @
        [nds040480800_v3_mode\<lparr>mode_name := print_mode_name k nds040480800_v3_mode\<rparr>] \<and>
      length (probed_modes (snd (ili9806e_get_modes k c))) = Suc (length (probed_modes c))) \<and>
   (\<not> mode_duplicate_ok k \<longrightarrow>
      fst (ili9806e_get_modes k c) = - ENOMEM \<and> snd (ili9806e_get_modes k c) = c) \<and>
   hdisplay nds040480800_v3_mode = 480 \<and> vdisplay nds040480800_v3_mode = 800 \<and> ENOMEM = 12"
  by (simp add: ili9806e_get_modes_def drm_mode_duplicate_def drm_mode_set_name_def
      drm_mode_probed_add_def Let_def nds040480800_v3_mode_def ENOMEM_def)

text \<open>
  C7 on a connector without modes: one mode when the duplication succeeds, none and
  -12 when it fails.
\<close>

theorem ili9806e_get_modes_one_mode_witness:
  "fst (ili9806e_get_modes good_core empty_connector) = 1 \<and>
   probed_modes (snd (ili9806e_get_modes good_core empty_connector)) =
     [nds040480800_v3_mode\<lparr>mode_name := ''480x800''\<rparr>] \<and>
   fst (ili9806e_get_modes (good_core\<lparr>mode_duplicate_ok := False\<rparr>) empty_connector) = - 12 \<and>
   snd (ili9806e_get_modes (good_core\<lparr>mode_duplicate_ok := False\<rparr>) empty_connector) =
     empty_connector"
proof -
  have a: "mode_duplicate_ok good_core"
    and b: "\<not> mode_duplicate_ok (good_core\<lparr>mode_duplicate_ok := False\<rparr>)"
    and n: "print_mode_name good_core nds040480800_v3_mode = ''480x800''"
    and e: "probed_modes empty_connector = []"
    by (simp_all add: good_core_def empty_connector_def)
  from ili9806e_get_modes_one_mode [of good_core empty_connector]
    ili9806e_get_modes_one_mode [of "good_core\<lparr>mode_duplicate_ok := False\<rparr>" empty_connector]
    a b
  have "fst (ili9806e_get_modes good_core empty_connector) = 1"
    "probed_modes (snd (ili9806e_get_modes good_core empty_connector)) =
        probed_modes empty_connector @
        [nds040480800_v3_mode\<lparr>mode_name := print_mode_name good_core nds040480800_v3_mode\<rparr>]"
    "fst (ili9806e_get_modes (good_core\<lparr>mode_duplicate_ok := False\<rparr>) empty_connector) = - ENOMEM"
    "snd (ili9806e_get_modes (good_core\<lparr>mode_duplicate_ok := False\<rparr>) empty_connector) =
       empty_connector"
    "ENOMEM = 12"
    by blast+
  then show ?thesis using n e by simp
qed

section \<open>Enabling the ST7789V\<close>

lemma st7789v_pipe_enable_world:
  "st7789v_pipe_enable h dbidev w =
     (if \<not> dev_enter h then w @ [DrmDevEnter]
      else w @ [DrmDevEnter, MipiDbiPoweronReset] @
           (if poweron_reset h \<noteq> 0 then [DrmDevExit] else []) @
           st7789v_enable_sequence (rotation dbidev))"
  by (simp add: st7789v_pipe_enable_def drm_dev_enter_def mipi_dbi_poweron_reset_def
      drm_dev_exit_def Let_def stmts_Cons stmts_Nil discard_command msleep_def
      mipi_dbi_enable_flush_def st7789v_enable_sequence_def dcs_defs)

lemma st7789v_addr_mode_values:
  "st7789v_addr_mode rot =
     (if rot = 90 then 0x60 else if rot = 180 then 0xc0 else if rot = 270 then 0xa0 else 0)"
  by (simp add: st7789v_addr_mode_def ST7789V_MX_def ST7789V_MY_def ST7789V_MV_def BIT_def)

text \<open>
  C8. When the device is entered and \<open>mipi_dbi_poweron_reset\<close> returns a nonzero
  status, \<open>st7789v_pipe_enable\<close> calls \<open>drm_dev_exit\<close> and then goes on with the
  whole sequence it runs after a successful reset: every initialisation command, the
  address mode, exit-sleep, display-on, the 20 ms sleep, and \<open>mipi_dbi_enable_flush\<close>
  as its last call.
\<close>

theorem st7789v_enable_continues_after_reset_error:
  "dev_enter h \<Longrightarrow> poweron_reset h \<noteq> 0 \<Longrightarrow>
     st7789v_pipe_enable h dbidev w =
       w @ [DrmDevEnter, MipiDbiPoweronReset, DrmDevExit] @
       st7789v_enable_sequence (rotation dbidev) \<and>
     st7789v_pipe_enable (h\<lparr>poweron_reset := 0\<rparr>) dbidev w =
       w @ [DrmDevEnter, MipiDbiPoweronReset] @ st7789v_enable_sequence (rotation dbidev) \<and>
     last (st7789v_pipe_enable h dbidev w) = MipiDbiEnableFlush"
  by (simp add: st7789v_pipe_enable_world st7789v_enable_sequence_def)

text \<open>C8 at a host whose power-on reset answers \<open>-EIO\<close>, with rotation 90.\<close>

theorem st7789v_enable_continues_after_reset_error_witness:
  "st7789v_pipe_enable failed_reset_host \<lparr>rotation = 90\<rparr> [] =
     [DrmDevEnter, MipiDbiPoweronReset, DrmDevExit] @ st7789v_enable_sequence 90 \<and>
   last (st7789v_pipe_enable failed_reset_host \<lparr>rotation = 90\<rparr> []) = MipiDbiEnableFlush"
proof -
  have e: "dev_enter failed_reset_host" and r: "poweron_reset failed_reset_host \<noteq> 0"
    by (simp_all add: failed_reset_host_def good_host_def EIO_def)
  from st7789v_enable_continues_after_reset_error [OF e r, of "\<lparr>rotation = 90\<rparr>" "[]"]
  show ?thesis by (simp add: st7789v_enable_sequence_def)
qed

text \<open>
  C9. The address-mode byte depends on the rotation alone: 0x60 for 90, 0xc0 for 180,
  0xa0 for 270, and 0 for every other value; the RGB bit (bit 3) is never set in it.
  When the device is entered, \<open>st7789v_pipe_enable\<close> sends exactly one
  \<open>MIPI_DCS_SET_ADDRESS_MODE\<close> command, with this byte as its only parameter.
\<close>

theorem st7789v_address_mode:
  "st7789v_addr_mode rot =
     (if rot = 90 then 0x60 else if rot = 180 then 0xc0 else if rot = 270 then 0xa0 else 0) \<and>
   st7789v_addr_mode rot AND ucast ST7789V_RGB = 0 \<and>
   filter is_set_address_mode (emitted w (st7789v_pipe_enable h dbidev w)) =
     (if dev_enter h
      then [MipiDbiCommand MIPI_DCS_SET_ADDRESS_MODE [st7789v_addr_mode (rotation dbidev)]]
      else [])"
proof (intro conjI)
  show "st7789v_addr_mode rot =
     (if rot = 90 then 0x60 else if rot = 180 then 0xc0 else if rot = 270 then 0xa0 else 0)"
    by (rule st7789v_addr_mode_values)
  show "st7789v_addr_mode rot AND ucast ST7789V_RGB = 0"
    by (simp add: st7789v_addr_mode_values ST7789V_RGB_def BIT_def)
  show "filter is_set_address_mode (emitted w (st7789v_pipe_enable h dbidev w)) =
     (if dev_enter h
      then [MipiDbiCommand MIPI_DCS_SET_ADDRESS_MODE [st7789v_addr_mode (rotation dbidev)]]
      else [])"
    by (simp add: st7789v_pipe_enable_world emitted_append st7789v_enable_sequence_def dcs_defs)
qed

end
